theory Spec2Isabelle
  imports Main "HOL-Library.Word"
begin

unbundle bit_operations_syntax

section \<open>Configuration\<close>

text \<open>
  The constants of the CONFIGURATION block of \<^verbatim>\<open>code.py\<close>. Python integers are
  unbounded, so every number is an \<open>int\<close>; indices and counts are \<open>nat\<close>.
\<close>

definition timezone_info :: "int \<times> string" where
  "timezone_info = (-5, ''EST'')"

definition sport_names :: "string list" where
  "sport_names = [''football'', ''baseball'', ''hockey'', ''basketball'']"

definition sport_leagues :: "string list" where
  "sport_leagues = [''nfl'', ''mlb'', ''nhl'', ''nba'']"

definition fetch_interval :: int where
  "fetch_interval = 300"

definition display_interval :: int where
  "display_interval = 5"

definition fetch_interval_ms :: int where
  "fetch_interval_ms = fetch_interval * 1000"

definition display_interval_ms :: int where
  "display_interval_ms = display_interval * 1000"

section \<open>Tick arithmetic\<close>

text \<open>
  Modelled from the spec: \<^verbatim>\<open>ticks_add\<close> and \<^verbatim>\<open>ticks_diff\<close> are imported from the
  library \<^verbatim>\<open>adafruit_ticks\<close>, whose source is not part of \<^verbatim>\<open>src/\<close>. The spec
  calls the tick counter fixed-width and the difference modular; the definitions below
  are the library's own arithmetic: a counter of period \<open>2 ^ 29\<close> milliseconds, addition
  reduced modulo the period, and a difference computed with two bit masks.
\<close>

definition TICKS_PERIOD :: int where
  "TICKS_PERIOD = 536870912"

definition TICKS_MAX :: int where
  "TICKS_MAX = TICKS_PERIOD - 1"

definition TICKS_HALFPERIOD :: int where
  "TICKS_HALFPERIOD = TICKS_PERIOD div 2"

text \<open>Modelled from the spec: \<^verbatim>\<open>ticks_add\<close> of the library, addition modulo the period.\<close>

definition ticks_add :: "int \<Rightarrow> int \<Rightarrow> int" where
  "ticks_add ticks delta = (ticks + delta) mod TICKS_PERIOD"

text \<open>Modelled from the spec: \<^verbatim>\<open>ticks_diff\<close> of the library, the signed difference of
  two readings, computed with two masks.\<close>

definition ticks_diff :: "int \<Rightarrow> int \<Rightarrow> int" where
  "ticks_diff ticks1 ticks2 =
     (let diff = (ticks1 - ticks2) AND TICKS_MAX
      in ((diff + TICKS_HALFPERIOD) AND TICKS_MAX) - TICKS_HALFPERIOD)"

text \<open>
  The two tests of the main loop, lines 410 and 423:
  \<^verbatim>\<open>ticks_diff(current_time, fetch_clock) >= fetch_interval_ms\<close> and
  \<^verbatim>\<open>ticks_diff(current_time, display_clock) >= display_interval_ms\<close>.
\<close>

definition fetch_due :: "int \<Rightarrow> int \<Rightarrow> bool" where
  "fetch_due current_time fetch_clock \<longleftrightarrow>
     ticks_diff current_time fetch_clock \<ge> fetch_interval_ms"

definition display_due :: "int \<Rightarrow> int \<Rightarrow> bool" where
  "display_due current_time display_clock \<longleftrightarrow>
     ticks_diff current_time display_clock \<ge> display_interval_ms"

text \<open>
  The spec's wording of the same quantity, for comparison with the code: the modular
  difference \<open>now - deadline\<close> of a counter of period \<open>2 ^ 29\<close>, read as the signed
  representative in the half-open window \<open>[- 2 ^ 28, 2 ^ 28)\<close>.
\<close>

definition wraparound_safe_difference :: "int \<Rightarrow> int \<Rightarrow> int" where
  "wraparound_safe_difference now deadline =
     (let d = (now - deadline) mod 2 ^ 29
      in if d < 2 ^ 28 then d else d - 2 ^ 29)"

section \<open>Values of the upstream feed\<close>

text \<open>
  \<^verbatim>\<open>resp.json()\<close> yields an arbitrary JSON document, so the code may meet any
  Python value at any place. \<open>JFloat m e\<close> stands for the float \<open>m * 2 ^ e\<close>; a
  \<open>JObj\<close> lists the items of the parsed dict in insertion order, and where a key
  is repeated the first binding is the dict's. Strings are read as ASCII text.
\<close>

datatype json =
    JNull
  | JBool bool
  | JInt int
  | JFloat int int
  | JStr string
  | JArr "json list"
  | JObj "(string \<times> json) list"

text \<open>
  Every operation that raises in Python returns \<open>None\<close>: all of them sit inside a
  \<^verbatim>\<open>try\<close> whose \<^verbatim>\<open>except Exception\<close> treats every exception alike.
\<close>

definition dict_keys :: "(string \<times> json) list \<Rightarrow> string list" where
  "dict_keys kvs = rev (remdups (rev (map fst kvs)))"

text \<open>\<^verbatim>\<open>obj[key]\<close> with a string key: only a dict has one (KeyError when absent,
  TypeError on every other value).\<close>

fun py_getitem :: "json \<Rightarrow> string \<Rightarrow> json option" where
  "py_getitem (JObj kvs) key = map_of kvs key"
| "py_getitem _ key = None"

text \<open>\<^verbatim>\<open>obj[i]\<close> with a non-negative integer: a list or a string (IndexError out of
  range); a dict has no integer key, every other value raises TypeError.\<close>

fun py_index :: "json \<Rightarrow> nat \<Rightarrow> json option" where
  "py_index (JArr xs) i = (if i < length xs then Some (xs ! i) else None)"
| "py_index (JStr s) i = (if i < length s then Some (JStr [s ! i]) else None)"
| "py_index _ i = None"

text \<open>\<^verbatim>\<open>obj.get(key, default)\<close>: a dict method (AttributeError elsewhere).\<close>

fun py_get :: "json \<Rightarrow> string \<Rightarrow> json \<Rightarrow> json option" where
  "py_get (JObj kvs) key dflt = (case map_of kvs key of Some v \<Rightarrow> Some v | None \<Rightarrow> Some dflt)"
| "py_get _ key dflt = None"

fun py_len :: "json \<Rightarrow> nat option" where
  "py_len (JArr xs) = Some (length xs)"
| "py_len (JStr s) = Some (length s)"
| "py_len (JObj kvs) = Some (length (dict_keys kvs))"
| "py_len _ = None"

text \<open>What a \<^verbatim>\<open>for\<close> loop iterates over: the items of a list, the characters of a
  string, the keys of a dict (TypeError on every other value).\<close>

fun py_iter :: "json \<Rightarrow> json list option" where
  "py_iter (JArr xs) = Some xs"
| "py_iter (JStr s) = Some (map (\<lambda>c. JStr [c]) s)"
| "py_iter (JObj kvs) = Some (map JStr (dict_keys kvs))"
| "py_iter _ = None"

text \<open>Truth value of a Python object.\<close>

fun py_bool :: "json \<Rightarrow> bool" where
  "py_bool JNull = False"
| "py_bool (JBool b) = b"
| "py_bool (JInt i) = (i \<noteq> 0)"
| "py_bool (JFloat m e) = (m \<noteq> 0)"
| "py_bool (JStr s) = (s \<noteq> [])"
| "py_bool (JArr xs) = (xs \<noteq> [])"
| "py_bool (JObj kvs) = (kvs \<noteq> [])"

section \<open>Decimal text\<close>

definition digit_char :: "nat \<Rightarrow> char" where
  "digit_char n = ''0123456789'' ! n"

fun show_nat :: "nat \<Rightarrow> string" where
  "show_nat n = (if n < 10 then [digit_char n] else show_nat (n div 10) @ [digit_char (n mod 10)])"

declare show_nat.simps [simp del]

definition show_int :: "int \<Rightarrow> string" where
  "show_int i = (if i < 0 then CHR ''-'' # show_nat (nat (- i)) else show_nat (nat i))"

text \<open>The format \<^verbatim>\<open>{minute:02d}\<close> of a non-negative number: zeros on the left up to
  width two.\<close>

definition format_02d :: "nat \<Rightarrow> string" where
  "format_02d n = replicate (2 - length (show_nat n)) (CHR ''0'') @ show_nat n"

text \<open>
  \<^verbatim>\<open>str(x)\<close>. The text of a float, a list or a dict is their \<^verbatim>\<open>repr\<close>, a matter of
  the runtime's float and escape formatting that no part of the program looks into: it
  is the parameter \<open>py_repr\<close>.
\<close>

fun py_str :: "(json \<Rightarrow> string) \<Rightarrow> json \<Rightarrow> string" where
  "py_str py_repr (JStr s) = s"
| "py_str py_repr (JInt i) = show_int i"
| "py_str py_repr (JBool b) = (if b then ''True'' else ''False'')"
| "py_str py_repr JNull = ''None''"
| "py_str py_repr v = py_repr v"

definition py_upper :: "string \<Rightarrow> string" where
  "py_upper s =
     map (\<lambda>c. case map_of (zip ''abcdefghijklmnopqrstuvwxyz'' ''ABCDEFGHIJKLMNOPQRSTUVWXYZ'') c of
                 Some u \<Rightarrow> u | None \<Rightarrow> c) s"

text \<open>
  \<^verbatim>\<open>int(text)\<close> in base ten, as the language reference gives it: white space around
  the number is dropped, one sign may lead, and the digits may be grouped by single
  underscores. ValueError is \<open>None\<close>. The white space \<^verbatim>\<open>int\<close> drops is the space
  and the five characters from tab (0x09) to carriage return (0x0D); the separators
  0x1C to 0x1F are not among them, and a field that holds one is refused.
\<close>

definition is_space :: "char \<Rightarrow> bool" where
  "is_space c \<longleftrightarrow>
     c \<in> set [CHR '' '', CHR 0x09, CHR 0x0A, CHR 0x0B, CHR 0x0C, CHR 0x0D]"

definition is_digit :: "char \<Rightarrow> bool" where
  "is_digit c \<longleftrightarrow> c \<in> set ''0123456789''"

definition digit_val :: "char \<Rightarrow> nat" where
  "digit_val c = length (takeWhile (\<lambda>d. d \<noteq> c) ''0123456789'')"

definition py_strip :: "string \<Rightarrow> string" where
  "py_strip s = rev (dropWhile is_space (rev (dropWhile is_space s)))"

fun parse_digits :: "string \<Rightarrow> nat \<Rightarrow> nat option" where
  "parse_digits [] acc = Some acc"
| "parse_digits (c # cs) acc =
     (if is_digit c then parse_digits cs (acc * 10 + digit_val c)
      else if c = CHR ''_'' then
        (case cs of
           [] \<Rightarrow> None
         | d # ds \<Rightarrow> if is_digit d then parse_digits cs acc else None)
      else None)"

definition parse_unsigned :: "string \<Rightarrow> nat option" where
  "parse_unsigned s =
     (case s of
        [] \<Rightarrow> None
      | d # ds \<Rightarrow> if is_digit d then parse_digits s 0 else None)"

definition py_int :: "string \<Rightarrow> int option" where
  "py_int s =
     (case py_strip s of
        [] \<Rightarrow> None
      | c # cs \<Rightarrow>
          if c = CHR ''-'' then map_option (\<lambda>n. - int n) (parse_unsigned cs)
          else if c = CHR ''+'' then map_option int (parse_unsigned cs)
          else map_option int (parse_unsigned (c # cs)))"


section \<open>Dates\<close>

text \<open>
  Modelled from the spec: \<^verbatim>\<open>datetime\<close> and \<^verbatim>\<open>timedelta\<close> are imported from the
  library \<^verbatim>\<open>adafruit_datetime\<close>, whose source is not part of \<^verbatim>\<open>src/\<close>. The model
  is the proleptic Gregorian calendar of years 1 to 9999 the library implements: the
  constructor refuses fields out of range (ValueError), and adding a number of hours
  carries into the date and refuses a result outside those years (OverflowError).
\<close>

record datetime =
  year :: nat
  month :: nat
  day :: nat
  hour :: nat
  minute :: nat

definition is_leap :: "nat \<Rightarrow> bool" where
  "is_leap y \<longleftrightarrow> y mod 4 = 0 \<and> (y mod 100 \<noteq> 0 \<or> y mod 400 = 0)"

definition days_in_month :: "nat \<Rightarrow> nat \<Rightarrow> nat" where
  "days_in_month y m =
     (if m = 2 then (if is_leap y then 29 else 28)
      else if m = 4 \<or> m = 6 \<or> m = 9 \<or> m = 11 then 30
      else 31)"

definition datetime_new :: "int \<Rightarrow> int \<Rightarrow> int \<Rightarrow> int \<Rightarrow> int \<Rightarrow> datetime option" where
  "datetime_new y mo d h mi =
     (if 1 \<le> y \<and> y \<le> 9999 \<and> 1 \<le> mo \<and> mo \<le> 12 \<and>
         1 \<le> d \<and> d \<le> int (days_in_month (nat y) (nat mo)) \<and>
         0 \<le> h \<and> h \<le> 23 \<and> 0 \<le> mi \<and> mi \<le> 59
      then Some \<lparr>year = nat y, month = nat mo, day = nat d, hour = nat h, minute = nat mi\<rparr>
      else None)"

definition next_day :: "datetime \<Rightarrow> datetime option" where
  "next_day dt =
     (if day dt < days_in_month (year dt) (month dt) then Some (dt\<lparr>day := day dt + 1\<rparr>)
      else if month dt < 12 then Some (dt\<lparr>month := month dt + 1, day := 1\<rparr>)
      else if year dt < 9999 then Some (dt\<lparr>year := year dt + 1, month := 1, day := 1\<rparr>)
      else None)"

definition prev_day :: "datetime \<Rightarrow> datetime option" where
  "prev_day dt =
     (if 1 < day dt then Some (dt\<lparr>day := day dt - 1\<rparr>)
      else if 1 < month dt
        then Some (dt\<lparr>month := month dt - 1, day := days_in_month (year dt) (month dt - 1)\<rparr>)
      else if 1 < year dt then Some (dt\<lparr>year := year dt - 1, month := 12, day := 31\<rparr>)
      else None)"

fun add_days :: "nat \<Rightarrow> datetime \<Rightarrow> datetime option" where
  "add_days 0 dt = Some dt"
| "add_days (Suc n) dt = (case next_day dt of None \<Rightarrow> None | Some dt' \<Rightarrow> add_days n dt')"

fun sub_days :: "nat \<Rightarrow> datetime \<Rightarrow> datetime option" where
  "sub_days 0 dt = Some dt"
| "sub_days (Suc n) dt = (case prev_day dt of None \<Rightarrow> None | Some dt' \<Rightarrow> sub_days n dt')"

text \<open>\<^verbatim>\<open>dt + timedelta(hours=h)\<close>.\<close>

definition datetime_add_hours :: "datetime \<Rightarrow> int \<Rightarrow> datetime option" where
  "datetime_add_hours dt h =
     (let total = int (hour dt) * 60 + int (minute dt) + h * 60;
          carry = total div 1440;
          rest = nat (total mod 1440);
          shifted = (if 0 \<le> carry then add_days (nat carry) dt else sub_days (nat (- carry)) dt)
      in map_option (\<lambda>d. d\<lparr>hour := rest div 60, minute := rest mod 60\<rparr>) shifted)"

section \<open>Helper functions of the program\<close>

text \<open>
  \<^verbatim>\<open>int(date_str[a:b])\<close>. Slicing a string never raises (it yields fewer characters
  where the string is short); slicing a list yields a list, which \<^verbatim>\<open>int\<close> refuses,
  and every other value cannot be sliced (TypeError either way).
\<close>

fun date_field :: "json \<Rightarrow> nat \<Rightarrow> nat \<Rightarrow> int option" where
  "date_field (JStr s) a b = py_int (take (b - a) (drop a s))"
| "date_field _ a b = None"

text \<open>The body of the \<^verbatim>\<open>try\<close> of \<^verbatim>\<open>convert_date_format\<close> up to \<^verbatim>\<open>dt_adjusted\<close>.\<close>

definition dt_adjusted :: "json \<Rightarrow> int \<times> string \<Rightarrow> datetime option" where
  "dt_adjusted date_str tz_info =
     Option.bind (date_field date_str 0 4) (\<lambda>y.
     Option.bind (date_field date_str 5 7) (\<lambda>mo.
     Option.bind (date_field date_str 8 10) (\<lambda>d.
     Option.bind (date_field date_str 11 13) (\<lambda>h.
     Option.bind (date_field date_str 14 16) (\<lambda>mi.
     Option.bind (datetime_new y mo d h mi) (\<lambda>dt.
       datetime_add_hours dt (fst tz_info)))))))"

definition format_datetime :: "datetime \<Rightarrow> string" where
  "format_datetime dt =
     (let am_pm = (if hour dt < 12 then ''AM'' else ''PM'');
          hour_12 = (if hour dt \<le> 12 then hour dt else hour dt - 12);
          hour_12 = (if hour_12 = 0 then 12 else hour_12)
      in show_nat (month dt) @ ''/'' @ show_nat (day dt) @ '' '' @ show_nat hour_12 @ '':'' @
         format_02d (minute dt) @ am_pm)"

definition convert_date_format :: "json \<Rightarrow> int \<times> string \<Rightarrow> string" where
  "convert_date_format date_str tz_info =
     (case dt_adjusted date_str tz_info of
        Some dt \<Rightarrow> format_datetime dt
      | None \<Rightarrow> ''TBD'')"

section \<open>The normalizer: \<^verbatim>\<open>parse_game\<close>\<close>

text \<open>
  The dict \<^verbatim>\<open>parse_game\<close> returns. The team abbreviations and the status are
  whatever values the feed holds at those places; the scores went through \<^verbatim>\<open>str\<close>.
\<close>

record game =
  league :: string
  league_idx :: nat
  home_team :: json
  away_team :: json
  home_score :: string
  away_score :: string
  status :: json
  is_final :: bool
  is_live :: bool
  is_scheduled :: bool

text \<open>The chain \<^verbatim>\<open>if status_name == ... elif ... else\<close> of lines 216 to 227.\<close>

definition display_status :: "json \<Rightarrow> json \<Rightarrow> json \<Rightarrow> json" where
  "display_status status_name status_detail game_date =
     (if status_name = JStr ''STATUS_FINAL'' then JStr ''FINAL''
      else if status_name = JStr ''STATUS_IN_PROGRESS'' then status_detail
      else if status_name = JStr ''STATUS_SCHEDULED''
        then JStr (convert_date_format game_date timezone_info)
      else if status_name = JStr ''STATUS_POSTPONED'' then JStr ''POSTPONED''
      else if status_name = JStr ''STATUS_CANCELED'' then JStr ''CANCELED''
      else if py_bool status_detail then status_detail else JStr ''SCHEDULED'')"

text \<open>
  \<^verbatim>\<open>parse_game\<close>: \<open>None\<close> is the Python \<^verbatim>\<open>None\<close>, returned for a competitor count
  other than two and from the \<^verbatim>\<open>except Exception\<close> that encloses the whole body.
\<close>

definition parse_game :: "(json \<Rightarrow> string) \<Rightarrow> json \<Rightarrow> nat \<Rightarrow> game option" where
  "parse_game py_repr event idx =
     Option.bind (py_getitem event ''competitions'') (\<lambda>competitions.
     Option.bind (py_index competitions 0) (\<lambda>competition.
     Option.bind (py_getitem competition ''competitors'') (\<lambda>competitors.
     Option.bind (py_len competitors) (\<lambda>n.
     if n \<noteq> 2 then None else
     Option.bind (py_index competitors 0) (\<lambda>c0.
     Option.bind (py_getitem c0 ''team'') (\<lambda>team0.
     Option.bind (py_getitem team0 ''abbreviation'') (\<lambda>home.
     Option.bind (py_index competitors 1) (\<lambda>c1.
     Option.bind (py_getitem c1 ''team'') (\<lambda>team1.
     Option.bind (py_getitem team1 ''abbreviation'') (\<lambda>away.
     Option.bind (py_get c0 ''score'' (JStr ''0'')) (\<lambda>hscore.
     Option.bind (py_get c1 ''score'' (JStr ''0'')) (\<lambda>ascore.
     Option.bind (py_getitem event ''status'') (\<lambda>st.
     Option.bind (py_getitem st ''type'') (\<lambda>status_type.
     Option.bind (py_get status_type ''name'' (JStr ''STATUS_SCHEDULED'')) (\<lambda>status_name.
     Option.bind (py_get status_type ''shortDetail'' (JStr '''')) (\<lambda>status_detail.
     Option.bind (py_get event ''date'' (JStr '''')) (\<lambda>game_date.
     if idx < length sport_leagues then
       Some \<lparr>league = py_upper (sport_leagues ! idx),
             league_idx = idx,
             home_team = home,
             away_team = away,
             home_score = py_str py_repr hscore,
             away_score = py_str py_repr ascore,
             status = display_status status_name status_detail game_date,
             is_final = (status_name = JStr ''STATUS_FINAL''),
             is_live = (status_name = JStr ''STATUS_IN_PROGRESS''),
             is_scheduled = (status_name = JStr ''STATUS_SCHEDULED'')\<rparr>
     else None)))))))))))))))))"

section \<open>The fetch pipeline: \<^verbatim>\<open>fetch_all_games\<close>\<close>

text \<open>
  What one league's request can do: \<^verbatim>\<open>requests.get(url)\<close> raises,
  \<^verbatim>\<open>resp.json()\<close> raises, \<^verbatim>\<open>resp.close()\<close> raises after the body was parsed, or
  all three return and the body is a JSON document.
\<close>

datatype http_result =
    Request_failed
  | Body_malformed
  | Close_failed json
  | Body json

definition SPORT_URLS :: "string list" where
  "SPORT_URLS =
     map (\<lambda>i. ''https://site.api.espn.com/apis/site/v2/sports/'' @ sport_names ! i @ ''/'' @
               sport_leagues ! i @ ''/scoreboard'')
       [0..<length sport_leagues]"

text \<open>The inner loop \<^verbatim>\<open>for event in events\<close>, with \<^verbatim>\<open>all_games\<close> as accumulator;
  \<^verbatim>\<open>if game:\<close> holds for every dict \<^verbatim>\<open>parse_game\<close> returns, which is never empty.\<close>

fun parse_events :: "(json \<Rightarrow> string) \<Rightarrow> nat \<Rightarrow> json list \<Rightarrow> game list \<Rightarrow> game list" where
  "parse_events py_repr idx [] all_games = all_games"
| "parse_events py_repr idx (event # events) all_games =
     (case parse_game py_repr event idx of
        Some g \<Rightarrow> parse_events py_repr idx events (all_games @ [g])
      | None \<Rightarrow> parse_events py_repr idx events all_games)"

text \<open>
  The body of the outer loop for one league. Each exception of the outer \<^verbatim>\<open>try\<close>
  (the request, \<^verbatim>\<open>data.get\<close> on a body that is no dict, \<^verbatim>\<open>len(events)\<close> or the
  iteration on a value that has neither) is raised before the first event is looked at,
  so the league then leaves \<^verbatim>\<open>all_games\<close> as it was.
\<close>

definition fetch_league ::
  "(json \<Rightarrow> string) \<Rightarrow> nat \<Rightarrow> http_result \<Rightarrow> game list \<Rightarrow> game list" where
  "fetch_league py_repr idx resp all_games =
     (case resp of
        Body data \<Rightarrow>
          (case py_get data ''events'' (JArr []) of
             None \<Rightarrow> all_games
           | Some events \<Rightarrow>
               (case py_len events of
                  None \<Rightarrow> all_games
                | Some n \<Rightarrow>
                    (case py_iter events of
                       None \<Rightarrow> all_games
                     | Some evs \<Rightarrow> parse_events py_repr idx evs all_games)))
      | _ \<Rightarrow> all_games)"

text \<open>The outer loop \<^verbatim>\<open>for league_idx, url in enumerate(SPORT_URLS)\<close>; \<open>net idx\<close> is
  the outcome of the request for the league of index \<open>idx\<close>.\<close>

fun fetch_leagues ::
  "(json \<Rightarrow> string) \<Rightarrow> (nat \<Rightarrow> http_result) \<Rightarrow> nat list \<Rightarrow> game list \<Rightarrow> game list" where
  "fetch_leagues py_repr net [] all_games = all_games"
| "fetch_leagues py_repr net (idx # rest) all_games =
     fetch_leagues py_repr net rest (fetch_league py_repr idx (net idx) all_games)"

definition fetch_all_games :: "(json \<Rightarrow> string) \<Rightarrow> (nat \<Rightarrow> http_result) \<Rightarrow> game list" where
  "fetch_all_games py_repr net = fetch_leagues py_repr net [0..<length SPORT_URLS] []"

text \<open>
  The spec's wording of the pipeline, for comparison with the code. A league is
  fetched and parsed when its request returns a body that is a JSON object whose
  events are a sequence; the games of a league are the events the normalizer accepts,
  in feed order, and none when the league was not fetched and parsed; the result of a
  run is the concatenation of the leagues' games in configuration order.
\<close>

definition spec_raw_events :: "http_result \<Rightarrow> json list option" where
  "spec_raw_events resp =
     (case resp of
        Body data \<Rightarrow>
          Option.bind (py_get data ''events'' (JArr [])) (\<lambda>events.
          Option.bind (py_len events) (\<lambda>n. py_iter events))
      | _ \<Rightarrow> None)"

definition spec_league_games :: "(json \<Rightarrow> string) \<Rightarrow> nat \<Rightarrow> http_result \<Rightarrow> game list" where
  "spec_league_games py_repr idx resp =
     (case spec_raw_events resp of
        None \<Rightarrow> []
      | Some evs \<Rightarrow> List.map_filter (\<lambda>e. parse_game py_repr e idx) evs)"

definition spec_pipeline :: "(json \<Rightarrow> string) \<Rightarrow> (nat \<Rightarrow> http_result) \<Rightarrow> game list" where
  "spec_pipeline py_repr nw =
     concat (map (\<lambda>idx. spec_league_games py_repr idx (nw idx)) [0..<length sport_leagues])"

section \<open>The main loop\<close>

text \<open>
  The module-level variables the loop reads and writes, the two classes of exception
  its handlers tell apart, and the calls into the outside world it makes, recorded in
  the order they happen. \<open>Sleep\<close> counts milliseconds; \<open>Reset\<close> is
  \<^verbatim>\<open>microcontroller.reset()\<close>, which does not return. \<open>OtherException\<close> is any
  exception of class \<^verbatim>\<open>Exception\<close> but \<^verbatim>\<open>MemoryError\<close>; what lies outside that
  class (a keyboard interrupt) is caught by neither handler and is no part of the model.
\<close>

record state =
  games :: "game list"
  fetch_clock :: int
  display_clock :: int
  game_index :: nat

datatype fault = MemoryError | OtherException

datatype message = Refreshing | Showing | Memory_error | Loop_error

datatype effect =
    Print message
  | GcCollect
  | FetchAllGames
  | ShowNoGames
  | Display game
  | Sleep nat
  | Reset

text \<open>
  What the outside world answers during one iteration: the reading of \<^verbatim>\<open>ticks_ms()\<close>,
  the outcome of each league's request should the iteration fetch, and the exception, if
  any, that \<^verbatim>\<open>show_no_games()\<close> and \<^verbatim>\<open>build_game_display(game)\<close> with the
  assignment to \<^verbatim>\<open>display.root_group\<close> raise should the iteration call them.
\<close>

record step_env =
  ticks_ms :: int
  net :: "nat \<Rightarrow> http_result"
  show_no_games_fault :: "fault option"
  build_game_display_fault :: "fault option"

text \<open>
  Lines 424 to 434: nothing is selected from an empty list; otherwise
  \<^verbatim>\<open>games[game_index]\<close> is taken (IndexError out of range) and the index moves on.
\<close>

definition rotation_step :: "game list \<Rightarrow> nat \<Rightarrow> fault + (game option \<times> nat)" where
  "rotation_step gs i =
     (if gs \<noteq> [] then
        (if i < length gs then Inr (Some (gs ! i), (i + 1) mod length gs)
         else Inl OtherException)
      else Inr (None, i))"

text \<open>Lines 423 to 439, from the display test to the idle wait.\<close>

definition display_step :: "state \<Rightarrow> step_env \<Rightarrow> effect list \<times> (fault + state)" where
  "display_step st env =
     (if display_due (ticks_ms env) (display_clock st) then
        (case rotation_step (games st) (game_index st) of
           Inl f \<Rightarrow> ([], Inl f)
         | Inr (None, i) \<Rightarrow>
             ([Sleep 100],
              Inr (st\<lparr>display_clock := ticks_add (display_clock st) display_interval_ms\<rparr>))
         | Inr (Some g, i) \<Rightarrow>
             (case build_game_display_fault env of
                Some f \<Rightarrow> ([Print Showing, GcCollect], Inl f)
              | None \<Rightarrow>
                  ([Print Showing, GcCollect, Display g, Sleep 100],
                   Inr (st\<lparr>game_index := i,
                           display_clock := ticks_add (display_clock st) display_interval_ms\<rparr>))))
      else ([Sleep 100], Inr st))"

text \<open>
  One iteration of \<^verbatim>\<open>while True\<close>, lines 407 to 439: the effects in order, and
  either the state the next iteration starts from or the exception that reaches the
  handlers. The \<^verbatim>\<open>continue\<close> of line 420 ends the iteration without the display test
  and without the idle wait.
\<close>

definition loop_body ::
  "(json \<Rightarrow> string) \<Rightarrow> state \<Rightarrow> step_env \<Rightarrow> effect list \<times> (fault + state)" where
  "loop_body py_repr st env =
     (if fetch_due (ticks_ms env) (fetch_clock st) then
        (let fetched = fetch_all_games py_repr (net env);
             st1 = st\<lparr>games := fetched,
                      fetch_clock := ticks_add (fetch_clock st) fetch_interval_ms,
                      game_index := 0\<rparr>;
             tr1 = [Print Refreshing, GcCollect, FetchAllGames]
         in if fetched = [] then
              (case show_no_games_fault env of
                 Some f \<Rightarrow> (tr1, Inl f)
               | None \<Rightarrow> (tr1 @ [ShowNoGames, Sleep 5000], Inr st1))
            else (case display_step st1 env of (tr2, r) \<Rightarrow> (tr1 @ tr2, r)))
      else display_step st env)"

text \<open>The two handlers, lines 441 to 452.\<close>

fun recover :: "fault \<Rightarrow> effect list" where
  "recover MemoryError = [Print Memory_error, GcCollect, Sleep 5000, Reset]"
| "recover OtherException = [Print Loop_error, Sleep 10000, GcCollect, Sleep 5000, Reset]"

text \<open>
  The loop over a finite run of iterations, one \<open>step_env\<close> each: the effects of the
  whole run. After a handler has called \<^verbatim>\<open>microcontroller.reset()\<close> nothing more
  happens, whatever iterations the run still holds.
\<close>

fun main_loop :: "(json \<Rightarrow> string) \<Rightarrow> state \<Rightarrow> step_env list \<Rightarrow> effect list" where
  "main_loop py_repr st [] = []"
| "main_loop py_repr st (env # envs) =
     (case loop_body py_repr st env of
        (tr, Inr st') \<Rightarrow> tr @ main_loop py_repr st' envs
      | (tr, Inl f) \<Rightarrow> tr @ recover f)"

text \<open>
  Lines 384 to 399: the first fetch, one more after ten seconds when it found nothing,
  and the two clocks read one after the other.
\<close>

definition startup ::
  "(json \<Rightarrow> string) \<Rightarrow> (nat \<Rightarrow> http_result) \<Rightarrow> (nat \<Rightarrow> http_result) \<Rightarrow> int \<Rightarrow> int \<Rightarrow> state" where
  "startup py_repr net1 net2 t1 t2 =
     (let first = fetch_all_games py_repr net1;
          gs = (if first = [] then fetch_all_games py_repr net2 else first)
      in \<lparr>games = gs, fetch_clock = t1, display_clock = t2, game_index = 0\<rparr>)"

text \<open>
  The state the loop is in after a finite run of iterations, or the exception that
  ended the run in a handler.
\<close>

fun loop_state :: "(json \<Rightarrow> string) \<Rightarrow> state \<Rightarrow> step_env list \<Rightarrow> fault + state" where
  "loop_state py_repr st [] = Inr st"
| "loop_state py_repr st (env # envs) =
     (case loop_body py_repr st env of
        (tr, Inr st') \<Rightarrow> loop_state py_repr st' envs
      | (tr, Inl f) \<Rightarrow> Inl f)"


section \<open>Sample data\<close>

text \<open>Concrete values on which the properties below are exercised.\<close>

definition sample_game :: game where
  "sample_game =
     \<lparr>league = ''NFL'', league_idx = 0, home_team = JStr ''NE'', away_team = JStr ''KC'',
      home_score = ''21'', away_score = ''17'', status = JStr ''FINAL'',
      is_final = True, is_live = False, is_scheduled = False\<rparr>"

definition offline :: "nat \<Rightarrow> http_result" where
  "offline i = Request_failed"

definition quiet_env :: "int \<Rightarrow> step_env" where
  "quiet_env t =
     \<lparr>ticks_ms = t, net = offline, show_no_games_fault = None,
      build_game_display_fault = None\<rparr>"

definition sample_state :: state where
  "sample_state =
     \<lparr>games = [sample_game, sample_game\<lparr>league_idx := 1\<rparr>],
      fetch_clock = 0, display_clock = 0, game_index = 1\<rparr>"

definition sample_event :: json where
  "sample_event =
     JObj [(''competitions'', JArr [JObj [(''competitors'',
              JArr [JObj [(''team'', JObj [(''abbreviation'', JStr ''NE'')]), (''score'', JStr ''21'')],
                    JObj [(''team'', JObj [(''abbreviation'', JStr ''KC'')])]])]]),
           (''status'', JObj [(''type'', JObj [(''name'', JStr ''STATUS_IN_PROGRESS''),
                                                 (''shortDetail'', JStr ''Q3 5:42'')])]),
           (''date'', JStr ''2024-01-15T00:30Z'')]"

definition sample_feed :: "nat \<Rightarrow> http_result" where
  "sample_feed i =
     (if i = 1 then Request_failed
      else Body (JObj [(''events'', JArr [sample_event, JNull])]))"

definition failing_env :: "int \<Rightarrow> fault \<Rightarrow> step_env" where
  "failing_env t f =
     \<lparr>ticks_ms = t, net = offline, show_no_games_fault = Some f,
      build_game_display_fault = Some f\<rparr>"

section \<open>Properties of the tick arithmetic\<close>

lemma and_TICKS_MAX: "x AND TICKS_MAX = x mod 2 ^ 29"
proof -
  have "TICKS_MAX = mask 29"
    by (simp add: TICKS_MAX_def TICKS_PERIOD_def mask_eq_exp_minus_1)
  then have "x AND TICKS_MAX = take_bit 29 x"
    by (simp only: take_bit_eq_mask)
  then show ?thesis
    by (simp only: take_bit_eq_mod)
qed

lemma ticks_diff_modular:
  "ticks_diff now deadline = wraparound_safe_difference now deadline"
proof -
  define d where "d = (now - deadline) mod 2 ^ 29"
  have range: "0 \<le> d" "d < 2 ^ 29"
    by (simp_all add: d_def)
  have half: "TICKS_HALFPERIOD = 2 ^ 28"
    by (simp add: TICKS_HALFPERIOD_def TICKS_PERIOD_def)
  have "ticks_diff now deadline = (d + 2 ^ 28) mod 2 ^ 29 - 2 ^ 28"
    by (simp add: ticks_diff_def Let_def and_TICKS_MAX half d_def)
  also have "\<dots> = (if d < 2 ^ 28 then d else d - 2 ^ 29)"
  proof (cases "d < 2 ^ 28")
    case True
    with range have "(d + 2 ^ 28) mod 2 ^ 29 = d + 2 ^ 28"
      by (intro mod_pos_pos_trivial) simp_all
    with True show ?thesis by simp
  next
    case False
    with range have "(d + 2 ^ 28 - 2 ^ 29) mod 2 ^ 29 = d + 2 ^ 28 - 2 ^ 29"
      by (intro mod_pos_pos_trivial) simp_all
    moreover have "(d + 2 ^ 28 - 2 ^ 29) mod 2 ^ 29 = (d + 2 ^ 28) mod (2 ^ 29 :: int)"
      by (metis minus_mod_self2)
    ultimately show ?thesis using False by simp
  qed
  finally show ?thesis
    by (simp add: wraparound_safe_difference_def Let_def d_def)
qed

text \<open>
  What the modular difference buys: when the counter has really advanced by \<open>elapsed\<close>
  milliseconds since the deadline was taken, and \<open>elapsed\<close> lies in the window
  \<open>[- 2 ^ 28, 2 ^ 28)\<close>, the difference of the two wrapped readings is \<open>elapsed\<close>, wherever
  the overflow of the counter falls.
\<close>

lemma ticks_diff_true_elapsed:
  assumes "- (2 ^ 28) \<le> elapsed" and "elapsed < 2 ^ 28"
  shows "ticks_diff ((t + elapsed) mod TICKS_PERIOD) (t mod TICKS_PERIOD) = elapsed"
proof -
  have "((t + elapsed) mod 2 ^ 29 - t mod 2 ^ 29) mod 2 ^ 29 = elapsed mod (2 ^ 29 :: int)"
    by (simp add: mod_diff_eq)
  moreover have "elapsed mod 2 ^ 29 = (if 0 \<le> elapsed then elapsed else elapsed + 2 ^ 29)"
  proof (cases "0 \<le> elapsed")
    case True
    with assms show ?thesis by simp
  next
    case False
    with assms have "(elapsed + 2 ^ 29) mod 2 ^ 29 = elapsed + (2 ^ 29 :: int)"
      by (intro mod_pos_pos_trivial) simp_all
    with False show ?thesis by simp
  qed
  ultimately show ?thesis
    using assms
    by (simp add: ticks_diff_modular wraparound_safe_difference_def Let_def TICKS_PERIOD_def)
qed

text \<open>
  C3. The elapsed test of the scheduler is true exactly when the wraparound-safe
  (modular, signed) difference \<open>now - deadline\<close> of the tick counter is at least the
  interval, for the fetch interval and for the display interval, at every pair of
  readings. That difference is the time that has really passed whenever this lies
  within half a period, wherever the overflow of the counter falls between the two
  readings.
\<close>

theorem elapsed_test_wraparound_safe:
  "fetch_due now deadline =
     (wraparound_safe_difference now deadline \<ge> fetch_interval_ms) \<and>
   display_due now deadline =
     (wraparound_safe_difference now deadline \<ge> display_interval_ms) \<and>
   (- (2 ^ 28) \<le> elapsed \<and> elapsed < 2 ^ 28 \<longrightarrow>
      wraparound_safe_difference ((t + elapsed) mod TICKS_PERIOD) (t mod TICKS_PERIOD) = elapsed)"
  using ticks_diff_true_elapsed [of elapsed t]
  by (simp add: fetch_due_def display_due_def ticks_diff_modular)

theorem elapsed_test_wraparound_safe_witness:
  "- (2 ^ 28) \<le> (300000 :: int) \<and> (300000 :: int) < 2 ^ 28 \<and>
   (536870902 + 300000) mod TICKS_PERIOD = 299990 \<and>
   fetch_due 299990 536870902 \<and> display_due 299990 536870902"
proof -
  have a: "- (2 ^ 28) \<le> (300000 :: int) \<and> (300000 :: int) < 2 ^ 28"
    by simp
  have b: "(536870902 + 300000) mod TICKS_PERIOD = 299990"
    "536870902 mod TICKS_PERIOD = 536870902"
    by (simp_all add: TICKS_PERIOD_def)
  from elapsed_test_wraparound_safe [of 299990 536870902 300000 536870902] a b
  have "fetch_due 299990 536870902 \<and> display_due 299990 536870902"
    by (simp add: fetch_interval_ms_def fetch_interval_def display_interval_ms_def
        display_interval_def)
  with a b show ?thesis by simp
qed

section \<open>Properties of one iteration of the main loop\<close>

lemma rotation_step_no_state:
  "rotation_step [] i = Inr (None, i)"
  by (simp add: rotation_step_def)

lemma display_step_clocks:
  assumes "display_step st env = (tr, Inr st')"
  shows "fetch_clock st' = fetch_clock st \<and> games st' = games st \<and>
         display_clock st' =
           (if display_due (ticks_ms env) (display_clock st)
            then ticks_add (display_clock st) display_interval_ms else display_clock st)"
  using assms
  by (auto simp: display_step_def rotation_step_def split: if_splits option.splits sum.splits prod.splits)

lemma display_step_index:
  assumes "display_step st env = (tr, Inr st')"
  shows "game_index st' =
           (if display_due (ticks_ms env) (display_clock st) \<and> games st \<noteq> []
            then (game_index st + 1) mod length (games st) else game_index st)"
  using assms
  by (auto simp: display_step_def rotation_step_def split: if_splits option.splits sum.splits prod.splits)

lemma display_step_no_reset:
  "display_step st env = (tr, x) \<Longrightarrow> Reset \<notin> set tr"
  by (auto simp: display_step_def rotation_step_def split: if_splits option.splits sum.splits prod.splits)

lemma loop_body_no_reset:
  "loop_body r st env = (tr, x) \<Longrightarrow> Reset \<notin> set tr"
  by (auto simp: loop_body_def Let_def split: if_splits option.splits prod.splits dest: display_step_no_reset)

lemma fetch_all_games_offline: "fetch_all_games r offline = []"
  by (simp add: fetch_all_games_def SPORT_URLS_def sport_leagues_def offline_def fetch_league_def upt_conv_Cons)

lemma sample_due: "fetch_due 300000 0" "display_due 300000 0" "display_due 5000 0" "\<not> fetch_due 5000 0"
  by (simp_all add: fetch_due_def display_due_def ticks_diff_modular wraparound_safe_difference_def
        fetch_interval_ms_def fetch_interval_def display_interval_ms_def display_interval_def)

lemma sample_due_later:
  "\<not> fetch_due 305000 300000" "\<not> fetch_due 305100 300000" "fetch_due 600000 300000"
  "display_due 305000 0" "display_due 305100 5000" "\<not> fetch_due 10000 0" "display_due 10000 5000"
  by (simp_all add: fetch_due_def display_due_def ticks_diff_modular wraparound_safe_difference_def
        fetch_interval_ms_def fetch_interval_def display_interval_ms_def display_interval_def)

lemma sample_advance:
  "ticks_add 0 fetch_interval_ms = 300000" "ticks_add 300000 fetch_interval_ms = 600000"
  "ticks_add 0 display_interval_ms = 5000" "ticks_add 5000 display_interval_ms = 10000"
  by (simp_all add: ticks_add_def TICKS_PERIOD_def fetch_interval_ms_def fetch_interval_def
        display_interval_ms_def display_interval_def)

lemma sample_refresh_step: "loop_body r sample_state (quiet_env 300000) =
     ([Print Refreshing, GcCollect, FetchAllGames, ShowNoGames, Sleep 5000],
      Inr \<lparr>games = [], fetch_clock = 300000, display_clock = 0, game_index = 0\<rparr>)"
  by (simp add: loop_body_def Let_def quiet_env_def fetch_all_games_offline sample_due sample_state_def
     ticks_add_def TICKS_PERIOD_def fetch_interval_ms_def fetch_interval_def)

lemma sample_display_step: "loop_body r sample_state (quiet_env 5000) =
     ([Print Showing, GcCollect, Display (sample_game\<lparr>league_idx := 1\<rparr>), Sleep 100],
      Inr \<lparr>games = [sample_game, sample_game\<lparr>league_idx := 1\<rparr>], fetch_clock = 0, display_clock = 5000, game_index = 0\<rparr>)"
  by (simp add: loop_body_def Let_def quiet_env_def sample_due sample_state_def display_step_def rotation_step_def
     ticks_add_def TICKS_PERIOD_def display_interval_ms_def display_interval_def)

text \<open>
  C4. Whenever a timer fires in an iteration that completes, its deadline becomes
  \<open>ticks_add\<close> of its previous deadline and one interval (addition modulo the period of
  the counter); the reading of the clock enters only through the two tests. The fetch
  deadline moves exactly when the fetch test holds, the display deadline exactly when
  the display test is reached and holds, and neither assignment touches the other
  deadline. (An iteration that ends in an exception leaves no state: the handlers
  restart the process.)
\<close>

theorem deadline_advance:
  assumes "loop_body r st env = (tr, Inr st')"
  shows "fetch_clock st' =
           (if fetch_due (ticks_ms env) (fetch_clock st)
            then ticks_add (fetch_clock st) fetch_interval_ms else fetch_clock st) \<and>
         display_clock st' =
           (if display_due (ticks_ms env) (display_clock st) \<and>
               \<not> (fetch_due (ticks_ms env) (fetch_clock st) \<and> fetch_all_games r (net env) = [])
            then ticks_add (display_clock st) display_interval_ms else display_clock st)"
proof (cases "fetch_due (ticks_ms env) (fetch_clock st)")
  case False
  with assms have "display_step st env = (tr, Inr st')"
    by (simp add: loop_body_def)
  from display_step_clocks [OF this] False show ?thesis by simp
next
  case due: True
  show ?thesis
  proof (cases "fetch_all_games r (net env) = []")
    case True
    with assms due show ?thesis
      by (auto simp: loop_body_def Let_def split: option.splits)
  next
    case False
    define st1 where "st1 = st\<lparr>games := fetch_all_games r (net env),
      fetch_clock := ticks_add (fetch_clock st) fetch_interval_ms, game_index := 0\<rparr>"
    from assms due False obtain tr2 where "display_step st1 env = (tr2, Inr st')"
      by (auto simp: loop_body_def Let_def st1_def split: prod.splits)
    from display_step_clocks [OF this] due False show ?thesis
      by (simp add: st1_def)
  qed
qed

theorem deadline_advance_witness:
  "loop_body (\<lambda>v. []) sample_state (quiet_env 5000) =
     ([Print Showing, GcCollect, Display (sample_game\<lparr>league_idx := 1\<rparr>), Sleep 100],
      Inr \<lparr>games = [sample_game, sample_game\<lparr>league_idx := 1\<rparr>], fetch_clock = 0,
           display_clock = 5000, game_index = 0\<rparr>) \<and>
   fetch_clock \<lparr>games = [sample_game, sample_game\<lparr>league_idx := 1\<rparr>], fetch_clock = 0,
           display_clock = 5000, game_index = 0\<rparr> = fetch_clock sample_state \<and>
   ticks_add (display_clock sample_state) display_interval_ms = 5000"
proof -
  note h = sample_display_step [of "\<lambda>v. []"]
  from deadline_advance [OF h] h show ?thesis
    by (simp add: sample_due quiet_env_def sample_state_def)
qed

text \<open>
  C1, as the spec states it: when a refresh is due and the run produces no games, the
  list installed before stays installed and the rotation index stays where it was.
  The code assigns the result of \<^verbatim>\<open>fetch_all_games()\<close> and resets the index
  without looking at the result: with every league offline, a state holding two games
  at index 1 is left holding none at index 0.
\<close>

theorem failed_refresh_counterexample:
  "fetch_due (ticks_ms (quiet_env 300000)) (fetch_clock sample_state) \<and>
   fetch_all_games (\<lambda>v. []) (net (quiet_env 300000)) = [] \<and>
   games sample_state \<noteq> [] \<and> game_index sample_state = 1 \<and>
   loop_body (\<lambda>v. []) sample_state (quiet_env 300000) =
     ([Print Refreshing, GcCollect, FetchAllGames, ShowNoGames, Sleep 5000],
      Inr \<lparr>games = [], fetch_clock = 300000, display_clock = 0, game_index = 0\<rparr>)"
  using sample_refresh_step [of "\<lambda>v. []"]
  by (simp add: sample_due fetch_all_games_offline quiet_env_def sample_state_def)

text \<open>
  C1, amended. In every iteration that completes and in which a refresh is due, the
  result of the refresh run is installed as the game list whether or not it is empty,
  and the rotation index is reset to 0, from where a display tick of the same iteration
  on a non-empty result rotates once; a refresh that produces no games therefore
  leaves an empty list at index 0. In an iteration where no refresh is due the game
  list stays as it was.
\<close>

theorem refresh_installs_result:
  assumes "loop_body r st env = (tr, Inr st')"
  shows "if fetch_due (ticks_ms env) (fetch_clock st)
         then games st' = fetch_all_games r (net env) \<and>
              game_index st' =
                (if games st' \<noteq> [] \<and> display_due (ticks_ms env) (display_clock st)
                 then 1 mod length (games st') else 0)
         else games st' = games st"
proof (cases "fetch_due (ticks_ms env) (fetch_clock st)")
  case False
  with assms have "display_step st env = (tr, Inr st')"
    by (simp add: loop_body_def)
  from display_step_clocks [OF this] False show ?thesis by simp
next
  case due: True
  show ?thesis
  proof (cases "fetch_all_games r (net env) = []")
    case True
    with assms due show ?thesis
      by (auto simp: loop_body_def Let_def split: option.splits)
  next
    case False
    define st1 where "st1 = st\<lparr>games := fetch_all_games r (net env),
      fetch_clock := ticks_add (fetch_clock st) fetch_interval_ms, game_index := 0\<rparr>"
    from assms due False obtain tr2 where d: "display_step st1 env = (tr2, Inr st')"
      by (auto simp: loop_body_def Let_def st1_def split: prod.splits)
    from display_step_clocks [OF d] display_step_index [OF d] due False show ?thesis
      by (simp add: st1_def)
  qed
qed

theorem refresh_installs_result_witness:
  "loop_body (\<lambda>v. []) sample_state (quiet_env 300000) =
     ([Print Refreshing, GcCollect, FetchAllGames, ShowNoGames, Sleep 5000],
      Inr \<lparr>games = [], fetch_clock = 300000, display_clock = 0, game_index = 0\<rparr>) \<and>
   fetch_due (ticks_ms (quiet_env 300000)) (fetch_clock sample_state) \<and>
   fetch_all_games (\<lambda>v. []) (net (quiet_env 300000)) = []"
proof -
  note h = sample_refresh_step [of "\<lambda>v. []"]
  from refresh_installs_result [OF h] h show ?thesis
    by (simp add: sample_due quiet_env_def sample_state_def fetch_all_games_offline)
qed

text \<open>
  C8, as the spec states it: whenever a refresh run ends with no games, the no-games
  screen is entered and the process is not restarted on this path. In the code the
  call \<^verbatim>\<open>show_no_games()\<close> of line 418 stands inside the \<^verbatim>\<open>try\<close> of the loop:
  when it raises (it allocates the display group and its labels), the exception
  reaches the handlers, the no-games screen is never shown, and the restart primitive
  is called. With every league offline and a \<^verbatim>\<open>MemoryError\<close> from
  \<^verbatim>\<open>show_no_games()\<close>, the run ends in \<open>Reset\<close>.
\<close>

theorem no_games_screen_fault_counterexample:
  "fetch_due (ticks_ms (failing_env 300000 MemoryError)) (fetch_clock sample_state) \<and>
   fetch_all_games (\<lambda>v. []) (net (failing_env 300000 MemoryError)) = [] \<and>
   main_loop (\<lambda>v. []) sample_state [failing_env 300000 MemoryError, quiet_env 600000] =
     [Print Refreshing, GcCollect, FetchAllGames,
      Print Memory_error, GcCollect, Sleep 5000, Reset]"
  by (simp add: loop_body_def Let_def failing_env_def sample_state_def sample_due
      fetch_all_games_offline)

text \<open>
  C8, amended. Let a refresh be due and its run yield no games. If the no-games
  screen is drawn without an exception, the iteration is: log, reclaim, fetch, show
  the no-games screen, wait five seconds; it ends without the restart primitive and
  leaves an empty list at index 0 with the fetch deadline moved on by one interval.
  Every following iteration at which the fetch test fails against the new deadline
  only waits a tenth of a second, whether or not its display test holds: nothing is
  fetched, nothing is shown, nothing is restarted, and list and index stay as they
  are. The first iteration at which the fetch test holds fetches again. The fetch test
  holds exactly when the time passed since the new deadline, within half a period of
  the counter, is at least one fetch interval: the five-second wait does not by itself
  bring the next refresh. If drawing the no-games screen raises, the run ends with the
  handler's sequence and the restart, whatever iterations were to follow.
\<close>

theorem empty_refresh_recovery:
  assumes due: "fetch_due (ticks_ms env) (fetch_clock st)"
    and empty: "fetch_all_games r (net env) = []"
    and idle: "list_all (\<lambda>e. \<not> fetch_due (ticks_ms e) (ticks_add (fetch_clock st) fetch_interval_ms)) idle"
    and again: "fetch_due (ticks_ms env') (ticks_add (fetch_clock st) fetch_interval_ms)"
  shows "(case show_no_games_fault env of
            None \<Rightarrow>
              loop_body r st env =
                ([Print Refreshing, GcCollect, FetchAllGames, ShowNoGames, Sleep 5000],
                 Inr (st\<lparr>games := [],
                         fetch_clock := ticks_add (fetch_clock st) fetch_interval_ms,
                         game_index := 0\<rparr>)) \<and>
              (\<exists>dc. loop_state r st (env # idle) =
                      Inr \<lparr>games = [],
                           fetch_clock = ticks_add (fetch_clock st) fetch_interval_ms,
                           display_clock = dc, game_index = 0\<rparr>) \<and>
              (\<exists>rest. main_loop r st (env # idle @ env' # others) =
                 [Print Refreshing, GcCollect, FetchAllGames, ShowNoGames, Sleep 5000] @
                 replicate (length idle) (Sleep 100) @
                 [Print Refreshing, GcCollect, FetchAllGames] @ rest)
          | Some f \<Rightarrow>
              main_loop r st (env # idle @ env' # others) =
                [Print Refreshing, GcCollect, FetchAllGames] @ recover f) \<and>
         (- (2 ^ 28) \<le> e \<and> e < 2 ^ 28 \<longrightarrow>
            fetch_due ((fetch_clock st + fetch_interval_ms + e) mod TICKS_PERIOD)
              (ticks_add (fetch_clock st) fetch_interval_ms) =
            (fetch_interval_ms \<le> e))"
proof (intro conjI impI)
  show "case show_no_games_fault env of
            None \<Rightarrow>
              loop_body r st env =
                ([Print Refreshing, GcCollect, FetchAllGames, ShowNoGames, Sleep 5000],
                 Inr (st\<lparr>games := [],
                         fetch_clock := ticks_add (fetch_clock st) fetch_interval_ms,
                         game_index := 0\<rparr>)) \<and>
              (\<exists>dc. loop_state r st (env # idle) =
                      Inr \<lparr>games = [],
                           fetch_clock = ticks_add (fetch_clock st) fetch_interval_ms,
                           display_clock = dc, game_index = 0\<rparr>) \<and>
              (\<exists>rest. main_loop r st (env # idle @ env' # others) =
                 [Print Refreshing, GcCollect, FetchAllGames, ShowNoGames, Sleep 5000] @
                 replicate (length idle) (Sleep 100) @
                 [Print Refreshing, GcCollect, FetchAllGames] @ rest)
          | Some f \<Rightarrow>
              main_loop r st (env # idle @ env' # others) =
                [Print Refreshing, GcCollect, FetchAllGames] @ recover f"
  proof (cases "show_no_games_fault env")
    case (Some f)
    with due empty show ?thesis
      by (simp add: loop_body_def Let_def)
  next
    case None
    define fc where "fc = ticks_add (fetch_clock st) fetch_interval_ms"
    define idling where "idling dc = \<lparr>games = [], fetch_clock = fc, display_clock = dc,
       game_index = 0\<rparr>" for dc
    have step: "loop_body r st env =
        ([Print Refreshing, GcCollect, FetchAllGames, ShowNoGames, Sleep 5000],
         Inr (idling (display_clock st)))"
      using due empty None by (simp add: loop_body_def Let_def idling_def fc_def)
    have tick: "\<exists>dc'. loop_body r (idling dc) e' = ([Sleep 100], Inr (idling dc'))"
      if "\<not> fetch_due (ticks_ms e') fc" for dc e'
    proof (cases "display_due (ticks_ms e') dc")
      case True
      with that have "loop_body r (idling dc) e' =
          ([Sleep 100], Inr (idling (ticks_add dc display_interval_ms)))"
        by (simp add: loop_body_def display_step_def rotation_step_def idling_def)
      then show ?thesis by blast
    next
      case False
      with that have "loop_body r (idling dc) e' = ([Sleep 100], Inr (idling dc))"
        by (simp add: loop_body_def display_step_def idling_def)
      then show ?thesis by blast
    qed
    have run: "\<exists>dc'. main_loop r (idling dc) (es @ env' # others) =
                 replicate (length es) (Sleep 100) @ main_loop r (idling dc') (env' # others) \<and>
               loop_state r (idling dc) es = Inr (idling dc')"
      if "list_all (\<lambda>e. \<not> fetch_due (ticks_ms e) fc) es" for dc es
      using that
    proof (induction es arbitrary: dc)
      case Nil
      have "main_loop r (idling dc) ([] @ env' # others) =
              replicate (length ([] :: step_env list)) (Sleep 100) @
              main_loop r (idling dc) (env' # others) \<and>
            loop_state r (idling dc) [] = Inr (idling dc)"
        by simp
      then show ?case by blast
    next
      case (Cons e' es)
      from Cons.prems have "\<not> fetch_due (ticks_ms e') fc"
        and rest: "list_all (\<lambda>e. \<not> fetch_due (ticks_ms e) fc) es"
        by simp_all
      from tick [OF this(1), of dc] obtain dc1 where
        t1: "loop_body r (idling dc) e' = ([Sleep 100], Inr (idling dc1))"
        by blast
      from Cons.IH [OF rest, of dc1] obtain dc2 where
        "main_loop r (idling dc1) (es @ env' # others) =
           replicate (length es) (Sleep 100) @ main_loop r (idling dc2) (env' # others) \<and>
         loop_state r (idling dc1) es = Inr (idling dc2)"
        by blast
      with t1 have "main_loop r (idling dc) ((e' # es) @ env' # others) =
           replicate (length (e' # es)) (Sleep 100) @ main_loop r (idling dc2) (env' # others) \<and>
         loop_state r (idling dc) (e' # es) = Inr (idling dc2)"
        by simp
      then show ?case by blast
    qed
    from idle have "list_all (\<lambda>e. \<not> fetch_due (ticks_ms e) fc) idle"
      by (simp add: fc_def)
    from run [OF this, of "display_clock st"] obtain dc where
      idles: "main_loop r (idling (display_clock st)) (idle @ env' # others) =
                replicate (length idle) (Sleep 100) @ main_loop r (idling dc) (env' # others)"
      and fin: "loop_state r (idling (display_clock st)) idle = Inr (idling dc)"
      by blast
    from again have "fetch_due (ticks_ms env') (fetch_clock (idling dc))"
      by (simp add: idling_def fc_def)
    then have "\<exists>rest x. loop_body r (idling dc) env' =
        ([Print Refreshing, GcCollect, FetchAllGames] @ rest, x)"
      by (auto simp: loop_body_def Let_def split: option.splits prod.splits)
    then obtain rest x where
      nxt: "loop_body r (idling dc) env' = ([Print Refreshing, GcCollect, FetchAllGames] @ rest, x)"
      by blast
    have "\<exists>rest'. main_loop r (idling dc) (env' # others) =
            [Print Refreshing, GcCollect, FetchAllGames] @ rest'"
      using nxt by (cases x) simp_all
    then obtain rest' where
      "main_loop r (idling dc) (env' # others) =
            [Print Refreshing, GcCollect, FetchAllGames] @ rest'"
      by blast
    with idles step have "main_loop r st (env # idle @ env' # others) =
                 [Print Refreshing, GcCollect, FetchAllGames, ShowNoGames, Sleep 5000] @
                 replicate (length idle) (Sleep 100) @
                 [Print Refreshing, GcCollect, FetchAllGames] @ rest'"
      by simp
    then have a: "\<exists>rest. main_loop r st (env # idle @ env' # others) =
                 [Print Refreshing, GcCollect, FetchAllGames, ShowNoGames, Sleep 5000] @
                 replicate (length idle) (Sleep 100) @
                 [Print Refreshing, GcCollect, FetchAllGames] @ rest"
      by blast
    from fin step have "loop_state r st (env # idle) =
        Inr \<lparr>games = [], fetch_clock = ticks_add (fetch_clock st) fetch_interval_ms,
             display_clock = dc, game_index = 0\<rparr>"
      by (simp add: idling_def fc_def)
    then have b: "\<exists>dc. loop_state r st (env # idle) =
                      Inr \<lparr>games = [],
                           fetch_clock = ticks_add (fetch_clock st) fetch_interval_ms,
                           display_clock = dc, game_index = 0\<rparr>"
      by blast
    have "idling (display_clock st) =
        st\<lparr>games := [], fetch_clock := ticks_add (fetch_clock st) fetch_interval_ms,
           game_index := 0\<rparr>"
      by (simp add: idling_def fc_def)
    with step a b None show ?thesis
      by simp
  qed
next
  assume "- (2 ^ 28) \<le> e \<and> e < 2 ^ 28"
  then have "ticks_diff ((fetch_clock st + fetch_interval_ms + e) mod TICKS_PERIOD)
               ((fetch_clock st + fetch_interval_ms) mod TICKS_PERIOD) = e"
    by (intro ticks_diff_true_elapsed) simp_all
  then show "fetch_due ((fetch_clock st + fetch_interval_ms + e) mod TICKS_PERIOD)
              (ticks_add (fetch_clock st) fetch_interval_ms) =
            (fetch_interval_ms \<le> e)"
    by (simp add: fetch_due_def ticks_add_def)
qed

theorem empty_refresh_recovery_witness:
  "fetch_due (ticks_ms (quiet_env 300000)) (fetch_clock sample_state) \<and>
   fetch_all_games (\<lambda>v. []) (net (quiet_env 300000)) = [] \<and>
   list_all (\<lambda>e. \<not> fetch_due (ticks_ms e) (ticks_add (fetch_clock sample_state) fetch_interval_ms))
     [quiet_env 305000, quiet_env 305100] \<and>
   fetch_due (ticks_ms (quiet_env 600000)) (ticks_add (fetch_clock sample_state) fetch_interval_ms) \<and>
   show_no_games_fault (quiet_env 300000) = None \<and>
   - (2 ^ 28) \<le> (300000 :: int) \<and> (300000 :: int) < 2 ^ 28 \<and>
   fetch_due ((fetch_clock sample_state + fetch_interval_ms + 300000) mod TICKS_PERIOD)
     (ticks_add (fetch_clock sample_state) fetch_interval_ms) \<and>
   main_loop (\<lambda>v. []) sample_state
     [quiet_env 300000, quiet_env 305000, quiet_env 305100, quiet_env 600000] =
     [Print Refreshing, GcCollect, FetchAllGames, ShowNoGames, Sleep 5000,
      Sleep 100, Sleep 100,
      Print Refreshing, GcCollect, FetchAllGames, ShowNoGames, Sleep 5000] \<and>
   loop_state (\<lambda>v. []) sample_state [quiet_env 300000, quiet_env 305000, quiet_env 305100] =
     Inr \<lparr>games = [], fetch_clock = 300000, display_clock = 10000, game_index = 0\<rparr> \<and>
   show_no_games_fault (failing_env 300000 OtherException) = Some OtherException \<and>
   main_loop (\<lambda>v. []) sample_state
     [failing_env 300000 OtherException, quiet_env 305000, quiet_env 305100, quiet_env 600000] =
     [Print Refreshing, GcCollect, FetchAllGames,
      Print Loop_error, Sleep 10000, GcCollect, Sleep 5000, Reset]"
proof -
  have due: "fetch_due (ticks_ms (quiet_env 300000)) (fetch_clock sample_state)"
    by (simp add: quiet_env_def sample_state_def sample_due)
  have empty: "fetch_all_games (\<lambda>v. []) (net (quiet_env 300000)) = []"
    by (simp add: quiet_env_def fetch_all_games_offline)
  have idle: "list_all
     (\<lambda>e. \<not> fetch_due (ticks_ms e) (ticks_add (fetch_clock sample_state) fetch_interval_ms))
     [quiet_env 305000, quiet_env 305100]"
    by (simp add: quiet_env_def sample_state_def sample_advance sample_due_later)
  have again: "fetch_due (ticks_ms (quiet_env 600000))
     (ticks_add (fetch_clock sample_state) fetch_interval_ms)"
    by (simp add: quiet_env_def sample_state_def sample_advance sample_due_later)
  have due': "fetch_due (ticks_ms (failing_env 300000 OtherException)) (fetch_clock sample_state)"
    by (simp add: failing_env_def sample_state_def sample_due)
  have empty': "fetch_all_games (\<lambda>v. []) (net (failing_env 300000 OtherException)) = []"
    by (simp add: failing_env_def fetch_all_games_offline)
  have run: "main_loop (\<lambda>v. []) sample_state
     [quiet_env 300000, quiet_env 305000, quiet_env 305100, quiet_env 600000] =
     [Print Refreshing, GcCollect, FetchAllGames, ShowNoGames, Sleep 5000,
      Sleep 100, Sleep 100,
      Print Refreshing, GcCollect, FetchAllGames, ShowNoGames, Sleep 5000]"
    by (simp add: loop_body_def Let_def display_step_def rotation_step_def quiet_env_def
        sample_state_def sample_due sample_due_later sample_advance fetch_all_games_offline)
  have fin: "loop_state (\<lambda>v. []) sample_state [quiet_env 300000, quiet_env 305000, quiet_env 305100] =
     Inr \<lparr>games = [], fetch_clock = 300000, display_clock = 10000, game_index = 0\<rparr>"
    by (simp add: loop_body_def Let_def display_step_def rotation_step_def quiet_env_def
        sample_state_def sample_due sample_due_later sample_advance fetch_all_games_offline)
  note shown = empty_refresh_recovery [OF due empty idle again, of "[]" 300000]
  note raised = empty_refresh_recovery [OF due' empty' idle again, of "[]" 300000]
  from shown have later:
    "fetch_due ((fetch_clock sample_state + fetch_interval_ms + 300000) mod TICKS_PERIOD)
       (ticks_add (fetch_clock sample_state) fetch_interval_ms)"
    by (simp add: fetch_interval_ms_def fetch_interval_def)
  from raised have "main_loop (\<lambda>v. []) sample_state
     [failing_env 300000 OtherException, quiet_env 305000, quiet_env 305100, quiet_env 600000] =
     [Print Refreshing, GcCollect, FetchAllGames,
      Print Loop_error, Sleep 10000, GcCollect, Sleep 5000, Reset]"
    by (simp add: failing_env_def)
  with due empty idle again run fin later show ?thesis
    by (simp add: quiet_env_def failing_env_def)
qed

lemma main_loop_shape:
  "Reset \<notin> set (main_loop r st envs) \<or>
   (\<exists>tr f. main_loop r st envs = tr @ recover f \<and> Reset \<notin> set tr)"
proof (induction envs arbitrary: st)
  case Nil
  then show ?case by simp
next
  case (Cons env envs)
  obtain tr x where lb: "loop_body r st env = (tr, x)"
    by (cases "loop_body r st env")
  note nr = loop_body_no_reset [OF lb]
  show ?case
  proof (cases x)
    case (Inl f)
    with lb nr show ?thesis by auto
  next
    case (Inr st')
    from Cons.IH [of st'] show ?thesis
    proof
      assume "Reset \<notin> set (main_loop r st' envs)"
      with lb Inr nr show ?thesis by simp
    next
      assume "\<exists>tr f. main_loop r st' envs = tr @ recover f \<and> Reset \<notin> set tr"
      then obtain tr' f where "main_loop r st' envs = tr' @ recover f" "Reset \<notin> set tr'"
        by blast
      with lb Inr nr have "main_loop r st (env # envs) = (tr @ tr') @ recover f \<and> Reset \<notin> set (tr @ tr')"
        by simp
      then show ?thesis by blast
    qed
  qed
qed

lemma recover_one_reset:
  "count_list (recover f) Reset = 1 \<and> last (recover f) = Reset"
  by (cases f) simp_all

text \<open>
  C9. When an iteration ends in an exception, the run ends with the effects of that
  iteration followed by the handler's sequence and nothing else, whatever iterations
  were still to come: for \<^verbatim>\<open>MemoryError\<close> a log line, memory reclamation, a wait of
  five seconds and the restart; for any other exception a log line, a wait of ten
  seconds, memory reclamation, a wait of five seconds and the restart. The restart
  primitive is called exactly once, as the last effect of the run.
\<close>

theorem recovery_sequences:
  assumes "loop_body r st env = (tr, Inl f)"
  shows "main_loop r st (env # envs) = tr @ recover f \<and>
         Reset \<notin> set tr \<and>
         recover f =
           (case f of
              MemoryError \<Rightarrow> [Print Memory_error, GcCollect, Sleep 5000, Reset]
            | OtherException \<Rightarrow> [Print Loop_error, Sleep 10000, GcCollect, Sleep 5000, Reset]) \<and>
         count_list (main_loop r st (env # envs)) Reset = 1 \<and>
         last (main_loop r st (env # envs)) = Reset"
proof -
  note nr = loop_body_no_reset [OF assms]
  have run: "main_loop r st (env # envs) = tr @ recover f"
    using assms by simp
  have "count_list tr Reset = 0"
    using nr by (simp add: count_list_0_iff)
  moreover have "recover f \<noteq> []"
    by (cases f) simp_all
  ultimately show ?thesis
    using nr run recover_one_reset [of f]
    by (cases f) simp_all
qed

theorem recovery_sequences_witness:
  "loop_body (\<lambda>v. []) sample_state (failing_env 5000 MemoryError) =
     ([Print Showing, GcCollect], Inl MemoryError) \<and>
   main_loop (\<lambda>v. []) sample_state [failing_env 5000 MemoryError, quiet_env 10000] =
     [Print Showing, GcCollect, Print Memory_error, GcCollect, Sleep 5000, Reset]"
proof -
  have h: "loop_body (\<lambda>v. []) sample_state (failing_env 5000 MemoryError) =
     ([Print Showing, GcCollect], Inl MemoryError)"
    by (simp add: loop_body_def Let_def failing_env_def sample_due sample_state_def
        display_step_def rotation_step_def)
  from recovery_sequences [OF h, of "[quiet_env 10000]"] h show ?thesis
    by simp
qed

section \<open>Rotation\<close>



lemma rotation_step_in_range:
  assumes "i < length gs"
  shows "rotation_step gs i = Inr (Some (gs ! i), (i + 1) mod length gs)"
proof -
  from assms have "gs \<noteq> []" by auto
  with assms show ?thesis by (simp add: rotation_step_def)
qed






text \<open>
  The index is in range in every state the program reaches: it is at start-up, and an
  iteration that completes keeps it so. With the index in range, the only exceptions
  of the display branch are those of the renderer.
\<close>

lemma display_step_index_in_range:
  assumes "display_step st env = (tr, Inr st')"
    and "games st = [] \<or> game_index st < length (games st)"
  shows "games st' = [] \<or> game_index st' < length (games st')"
  using assms
  by (auto simp: display_step_def rotation_step_def
      split: if_splits option.splits sum.splits prod.splits)

lemma loop_body_index_in_range:
  assumes "loop_body r st env = (tr, Inr st')"
    and "games st = [] \<or> game_index st < length (games st)"
  shows "games st' = [] \<or> game_index st' < length (games st')"
proof (cases "fetch_due (ticks_ms env) (fetch_clock st)")
  case False
  with assms(1) have "display_step st env = (tr, Inr st')"
    by (simp add: loop_body_def)
  from display_step_index_in_range [OF this assms(2)] show ?thesis .
next
  case due: True
  show ?thesis
  proof (cases "fetch_all_games r (net env) = []")
    case True
    with assms(1) due show ?thesis
      by (auto simp: loop_body_def Let_def split: option.splits)
  next
    case False
    define st1 where "st1 = st\<lparr>games := fetch_all_games r (net env),
      fetch_clock := ticks_add (fetch_clock st) fetch_interval_ms, game_index := 0\<rparr>"
    from assms(1) due False obtain tr2 where d: "display_step st1 env = (tr2, Inr st')"
      by (auto simp: loop_body_def Let_def st1_def split: prod.splits)
    from False have "games st1 = [] \<or> game_index st1 < length (games st1)"
      by (simp add: st1_def)
    from display_step_index_in_range [OF d this] show ?thesis .
  qed
qed

lemma startup_index_in_range:
  "games (startup r net1 net2 t1 t2) = [] \<or>
   game_index (startup r net1 net2 t1 t2) < length (games (startup r net1 net2 t1 t2))"
  by (simp add: startup_def Let_def)

lemma display_step_fault_from_env:
  assumes "display_step st env = (tr, Inl f)"
    and "games st = [] \<or> game_index st < length (games st)"
  shows "build_game_display_fault env = Some f"
  using assms
  by (auto simp: display_step_def rotation_step_def
      split: if_splits option.splits sum.splits prod.splits)

section \<open>Properties of the fetch pipeline\<close>

lemma parse_events_eq:
  "parse_events r idx evs acc = acc @ List.map_filter (\<lambda>e. parse_game r e idx) evs"
  by (induction evs arbitrary: acc) (simp_all split: option.splits)

lemma fetch_league_eq:
  "fetch_league r idx resp acc = acc @ spec_league_games r idx resp"
  by (cases resp)
     (simp_all add: fetch_league_def spec_league_games_def spec_raw_events_def parse_events_eq
        split: option.splits Option.bind_splits)

lemma fetch_leagues_eq:
  "fetch_leagues r nw idxs acc =
     acc @ concat (map (\<lambda>idx. spec_league_games r idx (nw idx)) idxs)"
  by (induction idxs arbitrary: acc) (simp_all add: fetch_league_eq)

lemma fetch_all_games_eq: "fetch_all_games r nw = spec_pipeline r nw"
  by (simp add: fetch_all_games_def spec_pipeline_def fetch_leagues_eq SPORT_URLS_def)

lemma map_filter_app:
  "List.map_filter f (xs @ ys) = List.map_filter f xs @ List.map_filter f ys"
  by (induction xs) (simp_all split: option.splits)

lemma map_filter_all_Some:
  assumes "\<forall>e \<in> set evs. f e \<noteq> None"
  shows "length (List.map_filter f evs) = length evs"
  using assms by (induction evs) (auto split: option.splits)


lemma parse_game_SomeE:
  assumes "parse_game r event idx = Some g"
  obtains competitions competition competitors c0 c1 team0 team1 home away hscore ascore
    st ty name detail date
  where "py_getitem event ''competitions'' = Some competitions"
    and "py_index competitions 0 = Some competition"
    and "py_getitem competition ''competitors'' = Some competitors"
    and "py_len competitors = Some 2"
    and "py_index competitors 0 = Some c0"
    and "py_getitem c0 ''team'' = Some team0"
    and "py_getitem team0 ''abbreviation'' = Some home"
    and "py_index competitors 1 = Some c1"
    and "py_getitem c1 ''team'' = Some team1"
    and "py_getitem team1 ''abbreviation'' = Some away"
    and "py_get c0 ''score'' (JStr ''0'') = Some hscore"
    and "py_get c1 ''score'' (JStr ''0'') = Some ascore"
    and "py_getitem event ''status'' = Some st"
    and "py_getitem st ''type'' = Some ty"
    and "py_get ty ''name'' (JStr ''STATUS_SCHEDULED'') = Some name"
    and "py_get ty ''shortDetail'' (JStr '''') = Some detail"
    and "py_get event ''date'' (JStr '''') = Some date"
    and "idx < length sport_leagues"
    and "g = \<lparr>league = py_upper (sport_leagues ! idx), league_idx = idx,
              home_team = home, away_team = away,
              home_score = py_str r hscore, away_score = py_str r ascore,
              status = display_status name detail date,
              is_final = (name = JStr ''STATUS_FINAL''),
              is_live = (name = JStr ''STATUS_IN_PROGRESS''),
              is_scheduled = (name = JStr ''STATUS_SCHEDULED'')\<rparr>"
  using assms unfolding parse_game_def
  by (auto split: Option.bind_splits if_splits)

lemma parse_sample_event:
  "idx < 4 \<Longrightarrow> parse_game r sample_event idx =
     Some \<lparr>league = py_upper (sport_leagues ! idx), league_idx = idx,
           home_team = JStr ''NE'', away_team = JStr ''KC'',
           home_score = ''21'', away_score = ''0'', status = JStr ''Q3 5:42'',
           is_final = False, is_live = True, is_scheduled = False\<rparr>"
  by (simp add: parse_game_def sample_event_def display_status_def sport_leagues_def)

lemma parse_null: "parse_game r JNull idx = None"
  by (simp add: parse_game_def)

text \<open>
  C2. \<^verbatim>\<open>fetch_all_games\<close> is a total function of the leagues' responses: it
  returns, for every combination of them, the concatenation in league order of the
  games the normalizer accepts from each league that was fetched and parsed, so the
  number of games is the sum over the leagues. A league whose request, body or close
  fails leaves the list as it was and contributes no game. An event the normalizer
  rejects is skipped wherever it stands among its siblings: the league yields what it
  yields without that event, and exactly \<open>N\<close> games when the \<open>N\<close> other events are
  all accepted.
\<close>

theorem fetch_isolation:
  "fetch_all_games r nw =
     concat (map (\<lambda>idx. spec_league_games r idx (nw idx)) [0..<length sport_leagues]) \<and>
   length (fetch_all_games r nw) =
     (\<Sum>idx\<leftarrow>[0..<length sport_leagues]. length (spec_league_games r idx (nw idx))) \<and>
   (nw i \<in> {Request_failed, Body_malformed} \<union> range Close_failed \<longrightarrow>
      fetch_league r i (nw i) acc = acc \<and> spec_league_games r i (nw i) = []) \<and>
   (parse_game r bad i = None \<longrightarrow>
      fetch_league r i (Body (JObj ((''events'', JArr (xs @ bad # ys)) # others))) acc =
      fetch_league r i (Body (JObj ((''events'', JArr (xs @ ys)) # others))) acc) \<and>
   (parse_game r bad i = None \<and> (\<forall>e \<in> set (xs @ ys). parse_game r e i \<noteq> None) \<longrightarrow>
      length (spec_league_games r i (Body (JObj ((''events'', JArr (xs @ bad # ys)) # others)))) =
      length (xs @ ys))"
proof (intro conjI impI)
  show "fetch_all_games r nw =
     concat (map (\<lambda>idx. spec_league_games r idx (nw idx)) [0..<length sport_leagues])"
    by (simp add: fetch_all_games_eq spec_pipeline_def)
  show "length (fetch_all_games r nw) =
     (\<Sum>idx\<leftarrow>[0..<length sport_leagues]. length (spec_league_games r idx (nw idx)))"
    by (simp add: fetch_all_games_eq spec_pipeline_def length_concat comp_def)
next
  assume "nw i \<in> {Request_failed, Body_malformed} \<union> range Close_failed"
  then have "spec_league_games r i (nw i) = []"
    by (auto simp: spec_league_games_def spec_raw_events_def)
  then show "fetch_league r i (nw i) acc = acc" "spec_league_games r i (nw i) = []"
    by (simp_all add: fetch_league_eq)
next
  assume bad: "parse_game r bad i = None"
  then show "fetch_league r i (Body (JObj ((''events'', JArr (xs @ bad # ys)) # others))) acc =
      fetch_league r i (Body (JObj ((''events'', JArr (xs @ ys)) # others))) acc"
    by (simp add: fetch_league_eq spec_league_games_def spec_raw_events_def map_filter_app)
next
  assume a: "parse_game r bad i = None \<and> (\<forall>e \<in> set (xs @ ys). parse_game r e i \<noteq> None)"
  then have "length (List.map_filter (\<lambda>e. parse_game r e i) (xs @ ys)) = length (xs @ ys)"
    by (intro map_filter_all_Some) simp
  with a show "length (spec_league_games r i (Body (JObj ((''events'', JArr (xs @ bad # ys)) # others)))) =
      length (xs @ ys)"
    by (simp add: spec_league_games_def spec_raw_events_def map_filter_app)
qed

theorem fetch_isolation_witness:
  "sample_feed 1 \<in> {Request_failed, Body_malformed} \<union> range Close_failed \<and>
   parse_game (\<lambda>v. []) JNull 1 = None \<and>
   parse_game (\<lambda>v. []) sample_event 1 \<noteq> None \<and>
   map league (fetch_all_games (\<lambda>v. []) sample_feed) = [''NFL'', ''NHL'', ''NBA''] \<and>
   length (spec_league_games (\<lambda>v. []) 1
             (Body (JObj ((''events'', JArr ([sample_event] @ JNull # [])) # [])))) = 1"
proof -
  have a: "sample_feed 1 \<in> {Request_failed, Body_malformed} \<union> range Close_failed"
    by (simp add: sample_feed_def)
  have b: "parse_game (\<lambda>v. []) JNull 1 = None"
    by (rule parse_null)
  have c: "\<forall>e \<in> set ([sample_event] @ []). parse_game (\<lambda>v. []) e 1 \<noteq> None"
    by (simp add: parse_sample_event)
  have d: "spec_league_games (\<lambda>v. []) idx (sample_feed idx) =
             (if idx = 1 then [] else [the (parse_game (\<lambda>v. []) sample_event idx)])" if "idx < 4" for idx
    using that by (simp add: spec_league_games_def spec_raw_events_def sample_feed_def
        parse_sample_event parse_null)
  from fetch_isolation [of "\<lambda>v. []" sample_feed 1 "[]" JNull "[sample_event]" "[]" "[]"] a b c
  have "fetch_all_games (\<lambda>v. []) sample_feed =
          concat (map (\<lambda>idx. spec_league_games (\<lambda>v. []) idx (sample_feed idx)) [0..<length sport_leagues])"
    and len: "length (spec_league_games (\<lambda>v. []) 1
             (Body (JObj ((''events'', JArr ([sample_event] @ JNull # [])) # [])))) = 1"
    by simp_all
  then have "map league (fetch_all_games (\<lambda>v. []) sample_feed) = [''NFL'', ''NHL'', ''NBA'']"
    by (simp add: sport_leagues_def upt_conv_Cons d parse_sample_event py_upper_def)
  with a b c len show ?thesis by simp
qed

section \<open>Properties of the normalizer\<close>

text \<open>
  C7. For every event the normalizer accepts, the status stored in the game is
  \<^verbatim>\<open>"FINAL"\<close> when the upstream code is \<^verbatim>\<open>STATUS_FINAL\<close>, whatever the detail;
  the upstream short detail itself for \<^verbatim>\<open>STATUS_IN_PROGRESS\<close>; the converted date
  for \<^verbatim>\<open>STATUS_SCHEDULED\<close> (also the code assumed when the feed gives none); the
  literals \<^verbatim>\<open>"POSTPONED"\<close> and \<^verbatim>\<open>"CANCELED"\<close> for those codes; and for any other code
  the detail when it is not empty, else \<^verbatim>\<open>"SCHEDULED"\<close>.
\<close>

theorem status_derivation:
  assumes "parse_game r event idx = Some g"
  shows "\<exists>st ty name detail date.
           py_getitem event ''status'' = Some st \<and>
           py_getitem st ''type'' = Some ty \<and>
           py_get ty ''name'' (JStr ''STATUS_SCHEDULED'') = Some name \<and>
           py_get ty ''shortDetail'' (JStr '''') = Some detail \<and>
           py_get event ''date'' (JStr '''') = Some date \<and>
           status g =
             (if name = JStr ''STATUS_FINAL'' then JStr ''FINAL''
              else if name = JStr ''STATUS_IN_PROGRESS'' then detail
              else if name = JStr ''STATUS_SCHEDULED''
                then JStr (convert_date_format date timezone_info)
              else if name = JStr ''STATUS_POSTPONED'' then JStr ''POSTPONED''
              else if name = JStr ''STATUS_CANCELED'' then JStr ''CANCELED''
              else if detail = JStr [] \<or> \<not> py_bool detail then JStr ''SCHEDULED''
              else detail)"
proof -
  from assms obtain st ty name detail date where
    "py_getitem event ''status'' = Some st" "py_getitem st ''type'' = Some ty"
    "py_get ty ''name'' (JStr ''STATUS_SCHEDULED'') = Some name"
    "py_get ty ''shortDetail'' (JStr '''') = Some detail"
    "py_get event ''date'' (JStr '''') = Some date"
    "status g = display_status name detail date"
    by (rule parse_game_SomeE) simp
  then show ?thesis
    by (auto simp: display_status_def)
qed

theorem status_derivation_witness:
  "parse_game (\<lambda>v. []) sample_event 0 =
     Some \<lparr>league = ''NFL'', league_idx = 0,
           home_team = JStr ''NE'', away_team = JStr ''KC'',
           home_score = ''21'', away_score = ''0'', status = JStr ''Q3 5:42'',
           is_final = False, is_live = True, is_scheduled = False\<rparr>"
proof -
  have h: "parse_game (\<lambda>v. []) sample_event 0 =
     Some \<lparr>league = ''NFL'', league_idx = 0,
           home_team = JStr ''NE'', away_team = JStr ''KC'',
           home_score = ''21'', away_score = ''0'', status = JStr ''Q3 5:42'',
           is_final = False, is_live = True, is_scheduled = False\<rparr>"
    using parse_sample_event [of 0 "\<lambda>v. []"] by (simp add: sport_leagues_def py_upper_def)
  from status_derivation [OF h] h show ?thesis by simp
qed



section \<open>Properties of the date conversion\<close>
















text \<open>
  A field is refused when it holds a character that is neither a digit nor white
  space of \<^verbatim>\<open>int\<close>, such as the unit separator 0x1F; a leading space is dropped.
\<close>

lemma separator_is_not_space:
  "py_int [CHR 0x1F, CHR ''5''] = None \<and>
   convert_date_format (JStr (''2024-01-15T'' @ [CHR 0x1F] @ ''5:30'')) (- 5, ''EST'') = ''TBD'' \<and>
   convert_date_format (JStr ''2024-01-15T 5:30'') (- 5, ''EST'') = ''1/15 12:30AM''"
  by code_simp




end
